theory Spec2Isabelle
  imports Main
begin

section \<open>Values, errors and the environment of \<open>mailer.py\<close>\<close>

text \<open>
  \<open>mailer.py\<close> branches on the run-time type of what it is given (\<open>isinstance\<close>,
  \<open>is None\<close>, key membership). The values it inspects are modelled by \<open>scalar\<close>
  (\<open>None\<close>, a \<open>str\<close>, a \<open>bytes\<close> object, an \<open>int\<close>), a Python \<open>dict\<close> with \<open>str\<close> keys and
  scalar values by an association list in insertion order (keys distinct, looked up with
  \<open>map_of\<close>), a list element or a bare argument by \<open>pyval\<close>, and an argument that may be a
  single value or a \<open>list\<close>/\<open>tuple\<close> of values by \<open>pyarg\<close>. A \<open>set\<close> argument has no
  iteration order of its own and is not modelled. A \<open>str\<close> is the list of its code points;
  \<open>char\<close> has 256 values, so the model covers text in that range.
\<close>

type_synonym bytes = "char list"

datatype scalar = PNone | PStr string | PBytes bytes | PInt int

type_synonym pydict = "(string \<times> scalar) list"

datatype pyval = Scalar scalar | Dict pydict

datatype pyarg = Single pyval | Collection "pyval list"

text \<open>
  The exceptions. \<open>MailerException\<close> is the module's own exception class; its argument
  tells the messages of the source apart. The other constructors are the built-in
  exceptions that reach the caller of \<open>send\<close> unconverted.
\<close>

datatype mailer_error =
    InvalidNamesArg string       \<comment> \<open>"Argument '..' has to be a of type 'list', 'tuple' or 'set'."\<close>
  | InvalidFrom                  \<comment> \<open>"Can not derive mail address from from_addr=.."\<close>
  | InvalidAttachmentType nat    \<comment> \<open>"Attachment i has to by of type 'str', 'bytes' or 'dict' .."\<close>
  | InvalidContentType nat       \<comment> \<open>"'data' entry in attachment i has to be of type 'str' or 'bytes' .."\<close>
  | FileNotFound nat             \<comment> \<open>"File in attachment i does not exist: .."\<close>
  | DownloadError string         \<comment> \<open>"Could not download URL ..: reason"\<close>
  | MissingSource                \<comment> \<open>"Attachment {i} has to define at least one of 'data', 'url' or 'file'."\<close>
  | MissingContentId nat         \<comment> \<open>"inlines[i]: For inline elements you need to specify 'cid'."\<close>
  | InvalidContentId             \<comment> \<open>"inlines[%d]: The 'cid' value must conform to RFC 2822's msg-id grammar .."\<close>
  | InvalidInlineContentType nat \<comment> \<open>"inlines[i]: 'data' has to be of type 'bytes'."\<close>
  | InlineFileNotFound nat       \<comment> \<open>"inlines[i]: File does not exist: .."\<close>
  | InlineMissingSource          \<comment> \<open>"inlines[%d]: At least one of 'data', 'url' or 'file' should be defined."\<close>
  | DanglingInline               \<comment> \<open>"Inline elements without a text or html representation does not make sense."\<close>
  | EmptyMessage                 \<comment> \<open>"There is not data to sent."\<close>
  | NoRecipients                 \<comment> \<open>"No recipients defined. to, cc and bcc are empty."\<close>

datatype error =
    MailerException mailer_error
  | TypeError
  | ValueError
  | AttributeError
  | HTTPError string             \<comment> \<open>\<open>urllib.error.HTTPError\<close> with its \<open>reason\<close>\<close>
  | LibraryError string          \<comment> \<open>any other exception of a library call (\<open>OSError\<close>, \<open>URLError\<close>, ..)\<close>

definition ebind :: "error + 'a \<Rightarrow> ('a \<Rightarrow> error + 'b) \<Rightarrow> error + 'b" where
  "ebind m f = (case m of Inl e \<Rightarrow> Inl e | Inr x \<Rightarrow> f x)"

text \<open>What \<open>urllib.request.urlopen\<close> answers: the parts of the response the source reads.\<close>

record response =
  get_content_type :: string        \<comment> \<open>\<open>response.info().get_content_type()\<close>\<close>
  get_filename :: "string option"   \<comment> \<open>\<open>response.info().get_filename()\<close>, \<open>None\<close> or a \<open>str\<close>\<close>
  read_body :: bytes                \<comment> \<open>\<open>response.read()\<close>\<close>

text \<open>
  The library functions and the outside world are parameters of the model. A function that
  the source may call on a value of any type takes a \<open>scalar\<close> and may raise.
\<close>

record env =
  parseaddr :: "string \<Rightarrow> string \<times> string"
    \<comment> \<open>\<open>email.utils.parseaddr\<close> on a \<open>str\<close>: \<open>('', '')\<close> when the parse fails\<close>
  parseaddr_nonstr :: "scalar \<Rightarrow> error + (string \<times> string)"
    \<comment> \<open>\<open>email.utils.parseaddr\<close> on a value that is not a \<open>str\<close>: \<open>('', '')\<close> or a \<open>TypeError\<close>,
        by the version of the library\<close>
  header_encode :: "string \<Rightarrow> string"
    \<comment> \<open>\<open>Charset('utf-8').header_encode\<close>\<close>
  py_str :: "scalar \<Rightarrow> string"
    \<comment> \<open>the built-in \<open>str()\<close>, also the formatting of a value in an f-string\<close>
  guess_type :: "scalar \<Rightarrow> error + string option"
    \<comment> \<open>\<open>mimetypes.guess_type(..)[0]\<close>\<close>
  guess_extension :: "string \<Rightarrow> string option"
    \<comment> \<open>\<open>mimetypes.guess_extension\<close>\<close>
  isfile :: "scalar \<Rightarrow> error + bool"
    \<comment> \<open>\<open>os.path.isfile\<close>\<close>
  read_file :: "scalar \<Rightarrow> error + bytes"
    \<comment> \<open>\<open>open(.., "rb")\<close> and \<open>read()\<close>\<close>
  basename :: "scalar \<Rightarrow> error + scalar"
    \<comment> \<open>\<open>os.path.basename\<close>\<close>
  urlopen :: "scalar \<Rightarrow> error + response"
    \<comment> \<open>\<open>urllib.request.Request\<close> and \<open>urlopen\<close>; \<open>Inl (HTTPError reason)\<close> is the exception the
        source catches\<close>
  url_basename :: "scalar \<Rightarrow> string"
    \<comment> \<open>\<open>posixpath.basename(urllib.parse.urlparse(req.get_full_url()).path)\<close>\<close>

subsection \<open>Operations of the language\<close>

text \<open>Truthiness, as \<open>if x:\<close>, \<open>not x\<close> and \<open>x or y\<close> test it.\<close>

fun truthy :: "scalar \<Rightarrow> bool" where
  "truthy PNone = False"
| "truthy (PStr s) = (s \<noteq> [])"
| "truthy (PBytes b) = (b \<noteq> [])"
| "truthy (PInt n) = (n \<noteq> 0)"

fun truthy_arg :: "pyarg \<Rightarrow> bool" where
  "truthy_arg (Single (Scalar v)) = truthy v"
| "truthy_arg (Single (Dict d)) = (d \<noteq> [])"
| "truthy_arg (Collection xs) = (xs \<noteq> [])"

definition py_or :: "scalar \<Rightarrow> scalar \<Rightarrow> scalar" where
  "py_or a b = (if truthy a then a else b)"

text \<open>\<open>d.get(k, None)\<close> and \<open>d.get(k, default)\<close>.\<close>

definition dict_get :: "pydict \<Rightarrow> string \<Rightarrow> scalar \<Rightarrow> scalar" where
  "dict_get d k dflt = (case map_of d k of None \<Rightarrow> dflt | Some v \<Rightarrow> v)"

text \<open>
  \<open>c in v\<close> for a one-character string \<open>c\<close>: a substring test on a \<open>str\<close>; on \<open>None\<close> and on
  an \<open>int\<close> a \<open>TypeError\<close> (not iterable), on \<open>bytes\<close> a \<open>TypeError\<close> (a bytes-like object is
  required).
\<close>

fun char_in :: "char \<Rightarrow> scalar \<Rightarrow> error + bool" where
  "char_in c (PStr s) = Inr (c \<in> set s)"
| "char_in c v = Inl TypeError"

text \<open>\<open>s.split(c)\<close> for a one-character separator.\<close>

fun split_on :: "char \<Rightarrow> string \<Rightarrow> string list" where
  "split_on c [] = [[]]"
| "split_on c (x # xs) =
     (if x = c then [] # split_on c xs
      else (case split_on c xs of [] \<Rightarrow> [[x]] | p # ps \<Rightarrow> (x # p) # ps))"

text \<open>\<open>a, b = s.split('/')\<close>: the unpacking raises \<open>ValueError\<close> unless there are two pieces.\<close>

definition unpack2 :: "string list \<Rightarrow> error + (string \<times> string)" where
  "unpack2 ps = (case ps of [a, b] \<Rightarrow> Inr (a, b) | _ \<Rightarrow> Inl ValueError)"

text \<open>\<open>s.split('/', 1)\<close> on a string that contains the separator: two pieces.\<close>

definition split_once :: "char \<Rightarrow> string \<Rightarrow> string \<times> string" where
  "split_once c s = (takeWhile (\<lambda>x. x \<noteq> c) s, tl (dropWhile (\<lambda>x. x \<noteq> c) s))"

text \<open>\<open>str(x)\<close> and the formatting of \<open>x\<close> in an f-string.\<close>

definition str_of :: "env \<Rightarrow> scalar \<Rightarrow> string" where
  "str_of E v = (case v of PStr s \<Rightarrow> s | _ \<Rightarrow> py_str E v)"

text \<open>The decimal digits of the loop index in \<open>f"Unnamed attachment {i}.dat"\<close>.\<close>

fun digits :: "nat \<Rightarrow> string" where
  "digits n = (if n < 10 then [char_of (48 + n)] else digits (n div 10) @ [char_of (48 + n mod 10)])"

declare digits.simps [simp del]

text \<open>\<open>f"Unnamed attachment {i}.dat"\<close> and \<open>f"Unnamed attachment {i}" + ext\<close>.\<close>

definition unnamed :: "nat \<Rightarrow> string \<Rightarrow> string" where
  "unnamed i ext = ''Unnamed attachment '' @ digits i @ ext"

text \<open>\<open>s.encode('utf-8')\<close>: one byte below code point 128, two bytes from there to 255.\<close>

definition utf8_encode :: "string \<Rightarrow> bytes" where
  "utf8_encode s =
     concat (map (\<lambda>c. if (of_char c :: nat) < 128 then [c]
                       else [char_of (192 + (of_char c :: nat) div 64),
                             char_of (128 + (of_char c :: nat) mod 64)]) s)"

section \<open>Connection state\<close>

datatype Cipher = PLAIN | SSL | START_TLS

definition from_port :: "int \<Rightarrow> Cipher" where
  "from_port port =
     (if port = 587 then START_TLS else if port = 2525 then START_TLS
      else if port = 465 then SSL else PLAIN)"

text \<open>
  The fields of a \<open>Mailer\<close>; \<open>conn\<close> tells whether \<open>self._conn\<close> holds a connection
  (\<open>False\<close> is \<open>None\<close>), \<open>user\<close> is \<open>self._user\<close>.
\<close>

record mailer =
  host :: string
  port :: int
  conn :: bool
  cipher :: Cipher
  user :: scalar

definition Mailer_init :: "string \<Rightarrow> int \<Rightarrow> Cipher option \<Rightarrow> mailer" where
  "Mailer_init h p c =
     \<lparr>host = h, port = p, conn = False,
      cipher = (case c of None \<Rightarrow> from_port p | Some k \<Rightarrow> k), user = PNone\<rparr>"

text \<open>
  \<open>login\<close> connects when there is no connection and stores the user before it
  authenticates, so the state below is the one it leaves also when the server refuses.
\<close>

definition login :: "mailer \<Rightarrow> scalar \<Rightarrow> mailer" where
  "login m u = m\<lparr>conn := True, user := u\<rparr>"

definition quit :: "mailer \<Rightarrow> mailer" where
  "quit m = m\<lparr>conn := False, user := PNone\<rparr>"

section \<open>Addresses\<close>

text \<open>\<open>MailAddress.__init__\<close> and \<open>_extract\<close>: \<open>ma_address = None\<close> is \<open>self._address is None\<close>.\<close>

record MailAddress =
  ma_name :: scalar
  ma_address :: "string option"

fun MailAddress_init :: "env \<Rightarrow> pyval \<Rightarrow> error + MailAddress" where
  "MailAddress_init E (Scalar (PStr s)) =
     Inr \<lparr>ma_name = PStr (fst (parseaddr E s)), ma_address = Some (snd (parseaddr E s))\<rparr>"
| "MailAddress_init E (Dict d) =
     (let nm = py_or (dict_get d ''fullname'' PNone)
                 (py_or (dict_get d ''name'' PNone) (dict_get d ''id'' PNone));
          arg = py_or (dict_get d ''mail'' PNone)
                  (py_or (dict_get d ''email'' PNone)
                    (py_or (dict_get d ''e-mail'' PNone) (dict_get d ''mailaddress'' PNone)))
      in ebind (case arg of PStr s \<Rightarrow> Inr (parseaddr E s) | _ \<Rightarrow> parseaddr_nonstr E arg)
           (\<lambda>r. Inr \<lparr>ma_name = nm, ma_address = Some (snd r)\<rparr>))"
| "MailAddress_init E (Scalar v) = Inr \<lparr>ma_name = PNone, ma_address = None\<rparr>"

definition is_valid :: "MailAddress \<Rightarrow> bool" where
  "is_valid ma = (case ma_address ma of None \<Rightarrow> False | Some a \<Rightarrow> a \<noteq> [])"

text \<open>
  \<open>MailAddress.__str__\<close>. \<open>header_encode\<close> calls \<open>encode\<close> on the name, which only a \<open>str\<close>
  has: another truthy name raises \<open>AttributeError\<close>.
\<close>

definition MailAddress_str :: "env \<Rightarrow> MailAddress \<Rightarrow> error + string" where
  "MailAddress_str E ma =
     (case ma_address ma of
        None \<Rightarrow> Inr []
      | Some a \<Rightarrow>
          if a = [] then Inr []
          else if truthy (ma_name ma) then
            (case ma_name ma of
               PStr n \<Rightarrow> Inr (header_encode E n @ '' <'' @ a @ ''>'')
             | _ \<Rightarrow> Inl AttributeError)
          else Inr a)"

text \<open>The warnings of \<open>logger.warning\<close>, in the order they are written.\<close>

datatype log_entry =
    DeprecatedStr string           \<comment> \<open>"'..' of type 'str' is deprecated. .."\<close>
  | InvalidRecipient string pyval  \<comment> \<open>"Recipient in field '..' is invalid and will be skipped: .."\<close>

text \<open>
  One round of the loop of \<open>_convert_names\<close>, for the item \<open>n\<close>: \<open>Inr None\<close> when the item
  is skipped (\<open>continue\<close>), \<open>Inr (Some s)\<close> when \<open>s\<close> is appended to \<open>result\<close>.
\<close>

definition convert_item :: "env \<Rightarrow> pyval \<Rightarrow> error + string option" where
  "convert_item E n =
     ebind (MailAddress_init E n) (\<lambda>ma.
       if \<not> is_valid ma then Inr None else map_sum id Some (MailAddress_str E ma))"

text \<open>
  The loop: the warnings written and either the exception that ended the loop or the list
  \<open>result\<close>.
\<close>

fun convert_loop :: "env \<Rightarrow> string \<Rightarrow> pyval list \<Rightarrow> log_entry list \<times> (error + string list)" where
  "convert_loop E argname [] = ([], Inr [])"
| "convert_loop E argname (n # ns) =
     (case convert_item E n of
        Inl e \<Rightarrow> ([], Inl e)
      | Inr None \<Rightarrow>
          (let r = convert_loop E argname ns in (InvalidRecipient argname n # fst r, snd r))
      | Inr (Some s) \<Rightarrow>
          (let r = convert_loop E argname ns
           in (fst r, case snd r of Inl e \<Rightarrow> Inl e | Inr ss \<Rightarrow> Inr (s # ss))))"

text \<open>\<open>Mailer._convert_names\<close>; \<open>Inr None\<close> is the return value \<open>None\<close>.\<close>

fun convert_names :: "env \<Rightarrow> pyarg \<Rightarrow> string \<Rightarrow> log_entry list \<times> (error + string list option)" where
  "convert_names E (Single (Scalar (PStr s))) argname =
     (let r = convert_loop E argname [Scalar (PStr s)]
      in (DeprecatedStr argname # fst r, map_sum id Some (snd r)))"
| "convert_names E (Single (Scalar PNone)) argname = ([], Inr None)"
| "convert_names E (Single v) argname = ([], Inl (MailerException (InvalidNamesArg argname)))"
| "convert_names E (Collection ns) argname =
     (let r = convert_loop E argname ns in (fst r, map_sum id Some (snd r)))"

text \<open>
  The recipients as the docstring of \<open>send\<close> has them: "to, cc, bcc : None, str, or list of
  str".
\<close>

fun documented_names :: "pyarg \<Rightarrow> bool" where
  "documented_names (Single (Scalar PNone)) = True"
| "documented_names (Single (Scalar (PStr s))) = True"
| "documented_names (Single v) = False"
| "documented_names (Collection ns) =
     list_all (\<lambda>n. case n of Scalar (PStr s) \<Rightarrow> True | _ \<Rightarrow> False) ns"

section \<open>Content parts\<close>

text \<open>
  A \<open>MIMEAnyType\<close> object: the type and the \<open>Name\<close> parameter of its \<open>Content-Type\<close> header,
  the payload before the base64 transfer encoding that the constructor always applies, and
  the headers that \<open>send\<close> adds with \<open>add_header\<close>, in order.
\<close>

record part =
  maintype :: string
  subtype :: string
  part_name :: scalar
  payload :: bytes
  part_headers :: "(string \<times> string) list"

text \<open>
  \<open>MIMEAnyType.__init__\<close>. The library formats the \<open>Name\<close> parameter: \<open>None\<close> and a \<open>str\<close>
  are accepted, \<open>len\<close> of an \<open>int\<close> raises \<open>TypeError\<close>, and a non-empty \<open>bytes\<close> object has no
  \<open>encode\<close> (\<open>AttributeError\<close>).
\<close>

definition MIMEAnyType :: "bytes \<Rightarrow> string \<Rightarrow> string \<Rightarrow> scalar \<Rightarrow> error + part" where
  "MIMEAnyType dat mt st nm =
     (case nm of
        PInt n \<Rightarrow> Inl TypeError
      | PBytes b \<Rightarrow>
          if b = [] then
            Inr \<lparr>maintype = mt, subtype = st, part_name = nm, payload = dat, part_headers = []\<rparr>
          else Inl AttributeError
      | _ \<Rightarrow> Inr \<lparr>maintype = mt, subtype = st, part_name = nm, payload = dat, part_headers = []\<rparr>)"

definition add_header :: "part \<Rightarrow> string \<Rightarrow> string \<Rightarrow> part" where
  "add_header p k v = p\<lparr>part_headers := part_headers p @ [(k, v)]\<rparr>"

definition opt_scalar :: "string option \<Rightarrow> scalar" where
  "opt_scalar g = (case g of None \<Rightarrow> PNone | Some s \<Rightarrow> PStr s)"

definition default_type :: "string \<times> string" where
  "default_type = (''application'', ''octet-stream'')"

text \<open>
  \<open>if t is not None and '/' in t: a, b = t.split('/') else: a, b = 'application',
  'octet-stream'\<close>, as the attachment variants and the inline data and url variants have it.
\<close>

fun split_type :: "scalar \<Rightarrow> error + (string \<times> string)" where
  "split_type PNone = Inr default_type"
| "split_type (PStr s) =
     (if CHR ''/'' \<in> set s then unpack2 (split_on CHR ''/'' s) else Inr default_type)"
| "split_type v = Inl TypeError"

text \<open>The same with \<open>t.split('/', 1)\<close>, as the inline file variant has it.\<close>

fun split_type1 :: "scalar \<Rightarrow> error + (string \<times> string)" where
  "split_type1 PNone = Inr default_type"
| "split_type1 (PStr s) =
     (if CHR ''/'' \<in> set s then Inr (split_once CHR ''/'' s) else Inr default_type)"
| "split_type1 v = Inl TypeError"

definition disposition :: "env \<Rightarrow> scalar \<Rightarrow> string" where
  "disposition E nm = ''attachment; filename='' @ [CHR 0x22] @ str_of E nm @ [CHR 0x22]"

subsection \<open>Attachments\<close>

text \<open>
  The branch \<open>if 'data' in attachment\<close>. First \<open>attachment_type\<close>: the \<open>type\<close> entry, else
  the type guessed from the \<open>name\<close> entry, else \<open>None\<close>.
\<close>

definition data_type :: "env \<Rightarrow> pydict \<Rightarrow> scalar \<Rightarrow> error + scalar" where
  "data_type E d attachment_name =
     (case map_of d ''type'' of
        Some t \<Rightarrow> Inr t
      | None \<Rightarrow>
          (case map_of d ''name'' of
             Some n \<Rightarrow> map_sum id opt_scalar (guess_type E attachment_name)
           | None \<Rightarrow> Inr PNone))"

text \<open>The whole branch; \<open>dat\<close> is \<open>attachment['data']\<close>.\<close>

definition attachment_data :: "env \<Rightarrow> nat \<Rightarrow> pydict \<Rightarrow> scalar \<Rightarrow> error + part" where
  "attachment_data E i d dat =
     (let attachment_name =
            dict_get d ''name'' (PStr (unnamed i ''.dat''))
      in ebind (data_type E d attachment_name) (\<lambda>attachment_type.
         ebind (split_type attachment_type) (\<lambda>(mt, st).
           (case (case dat of PStr s \<Rightarrow> PBytes (utf8_encode s) | _ \<Rightarrow> dat) of
              PBytes b \<Rightarrow>
                ebind (MIMEAnyType b mt st attachment_name) (\<lambda>p.
                  Inr (add_header p ''Content-Disposition'' (disposition E attachment_name)))
            | _ \<Rightarrow> Inl (MailerException (InvalidContentType i))))))"

text \<open>The branch \<open>elif 'file' in attachment\<close>; both defaults of \<open>get\<close> are evaluated first.\<close>

definition attachment_file :: "env \<Rightarrow> nat \<Rightarrow> pydict \<Rightarrow> scalar \<Rightarrow> error + part" where
  "attachment_file E i d f =
     ebind (isfile E f) (\<lambda>ok.
       if \<not> ok then Inl (MailerException (FileNotFound i))
       else
         ebind (guess_type E f) (\<lambda>g.
         ebind (split_type (dict_get d ''type'' (opt_scalar g))) (\<lambda>(mt, st).
         ebind (basename E f) (\<lambda>bn.
         ebind (read_file E f) (\<lambda>bs.
         ebind (MIMEAnyType bs mt st (dict_get d ''name'' bn)) (\<lambda>p.
           Inr (add_header p ''Content-Disposition''
                  (disposition E (dict_get d ''name'' bn)))))))))"

text \<open>
  The branch \<open>elif 'url' in attachment\<close>. Only \<open>HTTPError\<close> is caught and turned into a
  \<open>MailerException\<close>; everything else raised inside the \<open>try\<close> goes through.
\<close>

definition attachment_url :: "env \<Rightarrow> nat \<Rightarrow> pydict \<Rightarrow> scalar \<Rightarrow> error + part" where
  "attachment_url E i d u =
     (case urlopen E u of
        Inl (HTTPError r) \<Rightarrow> Inl (MailerException (DownloadError r))
      | Inl e \<Rightarrow> Inl e
      | Inr resp \<Rightarrow>
          ebind (split_type (dict_get d ''type'' (PStr (get_content_type resp)))) (\<lambda>(mt, st).
            (let n0 = dict_get d ''name'' (opt_scalar (get_filename resp));
                 n1 = (if n0 = PNone then PStr (url_basename E u) else n0);
                 attachment_name =
                   (if \<not> truthy n1 then
                      PStr (unnamed i
                              (case guess_extension E (mt @ ''/'' @ st) of
                                 None \<Rightarrow> ''.dat''
                               | Some x \<Rightarrow> if x = [] then ''.dat'' else x))
                    else n1)
             in ebind (MIMEAnyType (read_body resp) mt st attachment_name) (\<lambda>p.
                  Inr (add_header p ''Content-Disposition''
                         (disposition E attachment_name))))))"

text \<open>One round of the loop over \<open>enumerate(attachments)\<close>.\<close>

definition resolve_attachment :: "env \<Rightarrow> nat \<Rightarrow> pyval \<Rightarrow> error + part" where
  "resolve_attachment E i attachment =
     (case (case attachment of
              Scalar (PStr s) \<Rightarrow> Some [(''file'', PStr s)]
            | Scalar (PBytes b) \<Rightarrow> Some [(''data'', PBytes b)]
            | Dict d \<Rightarrow> Some d
            | _ \<Rightarrow> None) of
        None \<Rightarrow> Inl (MailerException (InvalidAttachmentType i))
      | Some d \<Rightarrow>
          (case map_of d ''data'' of
             Some dat \<Rightarrow> attachment_data E i d dat
           | None \<Rightarrow>
               (case map_of d ''file'' of
                  Some f \<Rightarrow> attachment_file E i d f
                | None \<Rightarrow>
                    (case map_of d ''url'' of
                       Some u \<Rightarrow> attachment_url E i d u
                     | None \<Rightarrow> Inl (MailerException MissingSource)))))"

fun resolve_attachments :: "env \<Rightarrow> nat \<Rightarrow> pyval list \<Rightarrow> error + part list" where
  "resolve_attachments E i [] = Inr []"
| "resolve_attachments E i (a # as) =
     ebind (resolve_attachment E i a) (\<lambda>p.
     ebind (resolve_attachments E (Suc i) as) (\<lambda>ps. Inr (p # ps)))"

text \<open>\<open>if not isinstance(x, (list, tuple, set)): x = [x]\<close>.\<close>

fun items :: "pyarg \<Rightarrow> pyval list" where
  "items (Single v) = [v]"
| "items (Collection xs) = xs"

definition attachment_parts :: "env \<Rightarrow> pyarg \<Rightarrow> error + part list" where
  "attachment_parts E atts =
     (if truthy_arg atts then resolve_attachments E 0 (items atts) else Inr [])"

subsection \<open>Inline elements\<close>

text \<open>\<open>p in s\<close> for two strings: \<open>p\<close> occurs in \<open>s\<close>.\<close>

fun starts_with :: "string \<Rightarrow> string \<Rightarrow> bool" where
  "starts_with [] ys = True"
| "starts_with (x # xs) [] = False"
| "starts_with (x # xs) (y # ys) = (x = y \<and> starts_with xs ys)"

fun occurs_in :: "string \<Rightarrow> string \<Rightarrow> bool" where
  "occurs_in p [] = (p = [])"
| "occurs_in p (y # ys) = (starts_with p (y # ys) \<or> occurs_in p ys)"

text \<open>
  The three content branches of the loop over \<open>enumerate(inlines)\<close>, for an element \<open>d\<close>
  whose \<open>cid\<close> is the string \<open>c\<close>: the part before the two headers are added.
\<close>

definition inline_content :: "env \<Rightarrow> nat \<Rightarrow> pydict \<Rightarrow> string \<Rightarrow> error + part" where
  "inline_content E i d c =
     (let i_name = takeWhile (\<lambda>x. x \<noteq> CHR ''@'') c
      in case map_of d ''data'' of
           Some i_data \<Rightarrow>
             (case i_data of
                PBytes b \<Rightarrow>
                  ebind (guess_type E (PStr i_name)) (\<lambda>g.
                  ebind (split_type (dict_get d ''type'' (opt_scalar g))) (\<lambda>(mt, st).
                    MIMEAnyType b mt st (PStr i_name)))
              | _ \<Rightarrow> Inl (MailerException (InvalidInlineContentType i)))
         | None \<Rightarrow>
             (case map_of d ''file'' of
                Some i_file \<Rightarrow>
                  ebind (isfile E i_file) (\<lambda>ok.
                    if \<not> ok then Inl (MailerException (InlineFileNotFound i))
                    else
                      ebind (guess_type E i_file) (\<lambda>g.
                      ebind (if truthy (dict_get d ''type'' (opt_scalar g))
                             then Inr (dict_get d ''type'' (opt_scalar g))
                             else map_sum id opt_scalar (guess_type E (PStr i_name)))
                        (\<lambda>i_type.
                      ebind (split_type1 i_type) (\<lambda>(mt, st).
                      ebind (read_file E i_file) (\<lambda>bs.
                        MIMEAnyType bs mt st (PStr i_name))))))
              | None \<Rightarrow>
                  (case map_of d ''url'' of
                     Some u \<Rightarrow>
                       (case urlopen E u of
                          Inl (HTTPError r) \<Rightarrow> Inl (MailerException (DownloadError r))
                        | Inl e \<Rightarrow> Inl e
                        | Inr resp \<Rightarrow>
                            ebind (split_type (dict_get d ''type'' (PStr (get_content_type resp))))
                              (\<lambda>(mt, st).
                                (let req_name = (case get_filename resp of
                                                   None \<Rightarrow> url_basename E u
                                                 | Some n \<Rightarrow> n)
                                 in MIMEAnyType (read_body resp) mt st
                                      (PStr (if req_name \<noteq> [] then req_name else i_name)))))
                   | None \<Rightarrow> Inl (MailerException InlineMissingSource))))"

text \<open>
  One round of the loop. An element that is not a \<open>dict\<close>: \<open>'cid' in inline\<close> is a substring
  test on a \<open>str\<close> (and \<open>inline['cid']\<close> then raises \<open>TypeError\<close>), and a \<open>TypeError\<close> on
  \<open>None\<close>, \<open>bytes\<close> and \<open>int\<close>.
\<close>

definition resolve_inline :: "env \<Rightarrow> nat \<Rightarrow> pyval \<Rightarrow> error + part" where
  "resolve_inline E i inline =
     (case inline of
        Scalar (PStr s) \<Rightarrow>
          if occurs_in ''cid'' s then Inl TypeError
          else Inl (MailerException (MissingContentId i))
      | Scalar v \<Rightarrow> Inl TypeError
      | Dict d \<Rightarrow>
          (case map_of d ''cid'' of
             None \<Rightarrow> Inl (MailerException (MissingContentId i))
           | Some i_cid \<Rightarrow>
               ebind (char_in CHR ''@'' i_cid) (\<lambda>has_at.
                 if \<not> has_at then Inl (MailerException InvalidContentId)
                 else
                   (case i_cid of
                      PStr c \<Rightarrow>
                        ebind (inline_content E i d c) (\<lambda>p.
                          Inr (add_header (add_header p ''Content-ID'' (''<'' @ c @ ''>''))
                                 ''Content-Disposition'' ''inline''))
                    | _ \<Rightarrow> Inl TypeError))))"

fun resolve_inlines :: "env \<Rightarrow> nat \<Rightarrow> pyval list \<Rightarrow> error + part list" where
  "resolve_inlines E i [] = Inr []"
| "resolve_inlines E i (x # xs) =
     ebind (resolve_inline E i x) (\<lambda>p.
     ebind (resolve_inlines E (Suc i) xs) (\<lambda>ps. Inr (p # ps)))"

definition inline_parts :: "env \<Rightarrow> pyarg \<Rightarrow> error + part list" where
  "inline_parts E inls =
     (if truthy_arg inls then resolve_inlines E 0 (items inls) else Inr [])"

section \<open>Composition\<close>

text \<open>
  The MIME tree: \<open>MIMEText(text, subtype)\<close>, a content part, and \<open>MIMEMultipart(subtype)\<close>
  with what was attached to it, in order.
\<close>

datatype mime = MIMEText string string | Part part | MIMEMultipart string "mime list"

text \<open>\<open>plaintext_part\<close> and \<open>html_part\<close>: \<open>None\<close> unless the argument is given.\<close>

definition text_part :: "env \<Rightarrow> string \<Rightarrow> scalar \<Rightarrow> mime option" where
  "text_part E sub v = (case v of PNone \<Rightarrow> None | _ \<Rightarrow> Some (MIMEText sub (str_of E v)))"

text \<open>"If both text and HTML are present, wrap them in multipart/alternative."\<close>

fun compose_body :: "mime option \<Rightarrow> mime option \<Rightarrow> mime option" where
  "compose_body (Some html_part) (Some plaintext_part) =
     Some (MIMEMultipart ''alternative'' [plaintext_part, html_part])"
| "compose_body (Some html_part) None = Some html_part"
| "compose_body None (Some plaintext_part) = Some plaintext_part"
| "compose_body None None = None"

text \<open>"If there are inline elements, package them together with the body in multipart/related."\<close>

definition compose_content :: "mime option \<Rightarrow> part list \<Rightarrow> error + mime option" where
  "compose_content body inls =
     (if inls \<noteq> [] then
        (case body of
           None \<Rightarrow> Inl (MailerException DanglingInline)
         | Some b \<Rightarrow> Inr (Some (MIMEMultipart ''related'' (b # map Part inls))))
      else Inr body)"

text \<open>"If there are attachments, everything must be wrapped in multipart/mixed."\<close>

definition compose_message :: "mime option \<Rightarrow> part list \<Rightarrow> mime option" where
  "compose_message content atts =
     (if atts \<noteq> [] then
        Some (MIMEMultipart ''mixed''
                ((case content of None \<Rightarrow> [] | Some c \<Rightarrow> [c]) @ map Part atts))
      else content)"

section \<open>Headers and \<open>send\<close>\<close>

text \<open>
  The headers that \<open>send\<close> sets on the finished message with \<open>message[key] = value\<close>, in the
  order of the assignments. The message classes are built with the library's default
  policy, under which \<open>Message.__setitem__\<close> appends the pair to the header list and "does
  not overwrite an existing header with the same field name".
\<close>

record message =
  msg_tree :: mime
  msg_headers :: "(string \<times> scalar) list"

definition set_item :: "message \<Rightarrow> string \<Rightarrow> scalar \<Rightarrow> message" where
  "set_item msg k v = msg\<lparr>msg_headers := msg_headers msg @ [(k, v)]\<rparr>"

text \<open>\<open>sep.join(xs)\<close>.\<close>

fun join :: "string \<Rightarrow> string list \<Rightarrow> string" where
  "join sep [] = []"
| "join sep [x] = x"
| "join sep (x # y # ys) = x @ sep @ join sep (y # ys)"

text \<open>\<open>if xs: message[key] = ','.join(xs); recipients.extend(xs)\<close>, for \<open>To\<close>, \<open>Cc\<close> and \<open>Bcc\<close>.\<close>

definition set_recipients ::
  "string \<Rightarrow> string list option \<Rightarrow> message \<times> string list \<Rightarrow> message \<times> string list" where
  "set_recipients key xs st =
     (case xs of
        None \<Rightarrow> st
      | Some ys \<Rightarrow>
          if ys = [] then st
          else (set_item (fst st) key (PStr (join '','' ys)), snd st @ ys))"

text \<open>
  \<open>if header: for header_key, content in header.items(): message[header_key] = content\<close>.
  A truthy value without \<open>items\<close> raises \<open>AttributeError\<close>.
\<close>

fun header_items :: "pyval \<Rightarrow> error + pydict" where
  "header_items (Dict d) = Inr d"
| "header_items (Scalar v) = (if truthy v then Inl AttributeError else Inr [])"

fun set_items :: "message \<Rightarrow> pydict \<Rightarrow> message" where
  "set_items msg [] = msg"
| "set_items msg ((k, v) # kvs) = set_items (set_item msg k v) kvs"

record send_args =
  to :: pyarg
  from_addr :: pyval
  subject :: scalar
  cc :: pyarg
  bcc :: pyarg
  reply_to :: pyval
  plaintext :: scalar
  html :: scalar
  attachments :: pyarg
  inlines :: pyarg
  header :: pyval

text \<open>"If \<open>from_addr\<close> is not a string, we convert it to one, and if it's \<open>None\<close>, we use the login user."\<close>

definition resolve_from :: "env \<Rightarrow> mailer \<Rightarrow> pyval \<Rightarrow> error + string" where
  "resolve_from E m fa =
     (case fa of
        Scalar PNone \<Rightarrow>
          ebind (char_in CHR ''@'' (user m)) (\<lambda>has_at.
            (case user m of
               PStr u \<Rightarrow> Inr (if \<not> has_at then u @ ''@'' @ host m else u)
             | _ \<Rightarrow> Inl TypeError))
      | _ \<Rightarrow>
          ebind (MailAddress_init E fa) (\<lambda>from_mailaddress.
            if \<not> is_valid from_mailaddress then Inl (MailerException InvalidFrom)
            else MailAddress_str E from_mailaddress))"

definition resolve_reply_to :: "env \<Rightarrow> pyval \<Rightarrow> error + string option" where
  "resolve_reply_to E rt =
     (case rt of
        Scalar PNone \<Rightarrow> Inr None
      | _ \<Rightarrow>
          ebind (MailAddress_init E rt) (\<lambda>reply_to_mailaddress.
            if \<not> is_valid reply_to_mailaddress then Inr None
            else map_sum id Some (MailAddress_str E reply_to_mailaddress)))"

definition coerce_subject :: "env \<Rightarrow> scalar \<Rightarrow> string" where
  "coerce_subject E s = (case s of PNone \<Rightarrow> [] | _ \<Rightarrow> str_of E s)"

text \<open>
  "Assemble mail header", from the finished tree to the call of \<open>sendmail\<close>: what is handed
  to the transport is the sender, the recipient list and the message.
\<close>

record handoff =
  sender :: string
  recipients :: "string list"
  sent :: message

definition assemble ::
  "mailer \<Rightarrow> mime \<Rightarrow> string list option \<Rightarrow> string list option \<Rightarrow> string list option \<Rightarrow>
   string option \<Rightarrow> string \<Rightarrow> string \<Rightarrow> pyval \<Rightarrow> error + handoff" where
  "assemble m tree to' cc' bcc' reply_to' from_addr' subject' hdr =
     (let st0 = (\<lparr>msg_tree = tree, msg_headers = []\<rparr>, []);
          st1 = set_recipients ''Bcc'' bcc' (set_recipients ''Cc'' cc' (set_recipients ''To'' to' st0));
          msg1 = (case reply_to' of
                    None \<Rightarrow> fst st1
                  | Some r \<Rightarrow> if r \<noteq> [] then set_item (fst st1) ''Reply-To'' (PStr r) else fst st1);
          msg2 = set_item (set_item msg1 ''From'' (PStr from_addr')) ''Subject'' (PStr subject')
      in ebind (header_items hdr) (\<lambda>kvs.
           if snd st1 = [] then Inl (MailerException NoRecipients)
           else if \<not> conn m then Inl AttributeError
           else Inr \<lparr>sender = from_addr', recipients = snd st1, sent = set_items msg2 kvs\<rparr>))"

text \<open>
  \<open>Mailer.send\<close>. \<open>Inr h\<close>: \<open>self._conn.sendmail\<close> is called with \<open>h\<close>; \<open>Inl e\<close>: the call ends
  with the exception \<open>e\<close> before that. The warnings of the address conversion are not part
  of the result.
\<close>

definition send :: "env \<Rightarrow> mailer \<Rightarrow> send_args \<Rightarrow> error + handoff" where
  "send E m a =
     ebind (snd (convert_names E (to a) ''to'')) (\<lambda>to'.
     ebind (snd (convert_names E (cc a) ''cc'')) (\<lambda>cc'.
     ebind (snd (convert_names E (bcc a) ''bcc'')) (\<lambda>bcc'.
     ebind (resolve_from E m (from_addr a)) (\<lambda>from_addr'.
     ebind (resolve_reply_to E (reply_to a)) (\<lambda>reply_to'.
     ebind (attachment_parts E (attachments a)) (\<lambda>aps.
     ebind (inline_parts E (inlines a)) (\<lambda>ips.
     ebind (compose_content
              (compose_body (text_part E ''html'' (html a)) (text_part E ''text'' (plaintext a)))
              ips) (\<lambda>content.
       (case compose_message content aps of
          None \<Rightarrow> Inl (MailerException EmptyMessage)
        | Some tree \<Rightarrow>
            assemble m tree to' cc' bcc' reply_to' from_addr' (coerce_subject E (subject a))
              (header a))))))))))"

section \<open>Example inputs\<close>

text \<open>
  A small environment for the worked examples: a bare address parses to itself, the type
  of \<open>a.png\<close> is guessed as \<open>image/png\<close>, \<open>README.md\<close> is the one existing file and every
  download answers \<open>text/plain\<close> without a file name.
\<close>

definition demo_env :: env where
  "demo_env =
     \<lparr>parseaddr = (\<lambda>s. ([], s)),
      parseaddr_nonstr = (\<lambda>v. Inr ([], [])),
      header_encode = (\<lambda>s. s),
      py_str = (\<lambda>v. ''None''),
      guess_type = (\<lambda>v. Inr (if v = PStr ''a.png'' then Some ''image/png'' else None)),
      guess_extension = (\<lambda>t. None),
      isfile = (\<lambda>v. Inr (v = PStr ''README.md'')),
      read_file = (\<lambda>v. Inr ''# readme''),
      basename = (\<lambda>v. Inr v),
      urlopen = (\<lambda>u. Inr \<lparr>get_content_type = ''text/plain'', get_filename = None, read_body = ''x''\<rparr>),
      url_basename = (\<lambda>u. ''logo.svg'')\<rparr>"

definition demo_args :: send_args where
  "demo_args = \<lparr>to = Collection [Scalar (PStr ''a@example.com'')], from_addr = Scalar (PStr ''me@example.com''),
     subject = PStr ''hi'', cc = Single (Scalar PNone), bcc = Single (Scalar PNone), reply_to = Scalar PNone,
     plaintext = PStr ''hi'', html = PNone, attachments = Single (Scalar PNone), inlines = Single (Scalar PNone),
     header = Scalar PNone\<rparr>"

definition demo_mailer :: mailer where
  "demo_mailer = login (Mailer_init ''mail.example.com'' 587 None) (PStr ''test@example.com'')"

definition both_args :: send_args where
  "both_args = demo_args\<lparr>html := PStr ''<b>hi</b>''\<rparr>"



definition empty_args :: send_args where
  "empty_args = demo_args\<lparr>to := Collection [], plaintext := PNone\<rparr>"

definition no_rcpt_args :: send_args where
  "no_rcpt_args = demo_args\<lparr>to := Collection []\<rparr>"


definition url_item :: pyval where
  "url_item = Dict [(''url'', PStr ''https://example.com/download''), (''name'', PStr ''a.png'')]"



definition logo_inline :: pyval where
  "logo_inline = Dict [(''url'', PStr ''https://cdnjs.cloudflare.com/logo.svg''),
                       (''cid'', PStr ''logo@cloudflare.com'')]"


definition anonymous_args :: send_args where
  "anonymous_args = demo_args\<lparr>from_addr := Scalar PNone\<rparr>"

definition slash_type :: string where
  "slash_type = ''application/vnd.example/extra''"

section \<open>Auxiliary facts\<close>

lemma ebind_Inr [simp]: "ebind (Inr x) f = f x"
  by (simp add: ebind_def)

lemma ebind_Inl [simp]: "ebind (Inl e) f = Inl e"
  by (simp add: ebind_def)

lemma ebind_eq_Inr: "ebind m f = Inr y \<longleftrightarrow> (\<exists>x. m = Inr x \<and> f x = Inr y)"
  by (cases m) simp_all




lemma set_items_tree [simp]: "msg_tree (set_items msg kvs) = msg_tree msg"
  by (induction msg kvs rule: set_items.induct) (simp_all add: set_item_def)

lemma set_items_headers [simp]: "msg_headers (set_items msg kvs) = msg_headers msg @ kvs"
  by (induction msg kvs rule: set_items.induct) (simp_all add: set_item_def)

lemma set_recipients_tree [simp]: "msg_tree (fst (set_recipients k xs st)) = msg_tree (fst st)"
  by (simp add: set_recipients_def set_item_def split: option.splits)

lemma assemble_tree: "assemble m tree t c b r f s hdr = Inr ho \<Longrightarrow> msg_tree (sent ho) = tree"
  by (auto simp: assemble_def Let_def ebind_eq_Inr set_item_def split: if_splits option.splits)

lemma case_option_eq_Inr:
  "(case x of None \<Rightarrow> Inl e | Some t \<Rightarrow> g t) = Inr y \<longleftrightarrow> (\<exists>t. x = Some t \<and> g t = Inr y)"
  by (cases x) simp_all

lemma send_eq_Inr:
  "send E m a = Inr ho \<longleftrightarrow>
     (\<exists>t c b f r aps ips content tree.
        snd (convert_names E (to a) ''to'') = Inr t \<and>
        snd (convert_names E (cc a) ''cc'') = Inr c \<and>
        snd (convert_names E (bcc a) ''bcc'') = Inr b \<and>
        resolve_from E m (from_addr a) = Inr f \<and>
        resolve_reply_to E (reply_to a) = Inr r \<and>
        attachment_parts E (attachments a) = Inr aps \<and>
        inline_parts E (inlines a) = Inr ips \<and>
        compose_content
          (compose_body (text_part E ''html'' (html a)) (text_part E ''text'' (plaintext a)))
          ips = Inr content \<and>
        compose_message content aps = Some tree \<and>
        assemble m tree t c b r f (coerce_subject E (subject a)) (header a) = Inr ho)"
  by (simp add: send_def ebind_eq_Inr case_option_eq_Inr)

lemma send_Inr_tree:
  assumes "send E m a = Inr ho"
  shows "\<exists>ips aps content.
           inline_parts E (inlines a) = Inr ips \<and> attachment_parts E (attachments a) = Inr aps \<and>
           compose_content
             (compose_body (text_part E ''html'' (html a)) (text_part E ''text'' (plaintext a)))
             ips = Inr content \<and>
           compose_message content aps = Some (msg_tree (sent ho))"
  using assms unfolding send_eq_Inr by (auto dest: assemble_tree)

lemma compose_body_text:
  "compose_body (text_part E ''html'' h) (text_part E ''text'' p) =
     (if h \<noteq> PNone \<and> p \<noteq> PNone then
        Some (MIMEMultipart ''alternative''
                [MIMEText ''text'' (str_of E p), MIMEText ''html'' (str_of E h)])
      else if h \<noteq> PNone then Some (MIMEText ''html'' (str_of E h))
      else if p \<noteq> PNone then Some (MIMEText ''text'' (str_of E p))
      else None)"
  by (cases h; cases p) (simp_all add: text_part_def)



lemma text_part_None [simp]: "text_part E sub PNone = None"
  by (simp add: text_part_def)

lemma set_recipients_empty:
  "xs = None \<or> xs = Some [] \<Longrightarrow> set_recipients k xs st = st"
  by (auto simp: set_recipients_def)

lemma assemble_no_recipients:
  assumes "t = None \<or> t = Some []" "c = None \<or> c = Some []" "b = None \<or> b = Some []"
  shows "assemble m tree t c b r f s hdr =
           ebind (header_items hdr) (\<lambda>kvs. Inl (MailerException NoRecipients))"
  using assms by (simp add: assemble_def set_recipients_empty Let_def)



lemma MIMEAnyType_fields:
  "MIMEAnyType dat mt st nm = Inr p \<Longrightarrow>
   maintype p = mt \<and> subtype p = st \<and> part_name p = nm \<and> payload p = dat \<and> part_headers p = []"
  by (auto simp: MIMEAnyType_def split: scalar.splits if_splits)

lemma inline_content_headers:
  assumes "inline_content E i d c = Inr q"
  shows "part_headers q = []"
  using assms
  by (auto simp: inline_content_def Let_def ebind_eq_Inr
           dest!: MIMEAnyType_fields
           split: option.splits scalar.splits sum.splits error.splits if_splits)

lemma convert_item_Scalar: "\<exists>r. convert_item E (Scalar v) = Inr r"
  by (cases v) (auto simp: convert_item_def is_valid_def MailAddress_str_def)

lemma convert_loop_skips:
  assumes "\<forall>n\<in>set ns. \<exists>r. convert_item E n = Inr r"
  shows "convert_loop E argname ns =
           (map (InvalidRecipient argname) (filter (\<lambda>n. convert_item E n = Inr None) ns),
            Inr (concat (map (\<lambda>n. case convert_item E n of Inr (Some s) \<Rightarrow> [s] | _ \<Rightarrow> []) ns)))"
  using assms
proof (induction ns)
  case Nil
  then show ?case by simp
next
  case (Cons n ns)
  then obtain r where r: "convert_item E n = Inr r" by auto
  from Cons have ih: "convert_loop E argname ns =
           (map (InvalidRecipient argname) (filter (\<lambda>n. convert_item E n = Inr None) ns),
            Inr (concat (map (\<lambda>n. case convert_item E n of Inr (Some s) \<Rightarrow> [s] | _ \<Rightarrow> []) ns)))"
    by simp
  show ?case
    by (cases r) (simp_all add: r ih Let_def)
qed

lemma split_on_not_Nil [simp]: "split_on c s \<noteq> []"
  by (induction s) (auto split: list.splits)

lemma length_split_on: "length (split_on c s) = Suc (count_list s c)"
proof (induction s)
  case Nil
  then show ?case by simp
next
  case (Cons x xs)
  then show ?case
    by (cases "split_on c xs") auto
qed

lemma unpack2_long: "3 \<le> length ps \<Longrightarrow> unpack2 ps = Inl ValueError"
  by (auto simp: unpack2_def split: list.splits)

lemma split_type_two_slashes:
  assumes "2 \<le> count_list t CHR ''/''"
  shows "split_type (PStr t) = Inl ValueError"
proof -
  from assms have "count_list t CHR ''/'' \<noteq> 0" by simp
  then have "CHR ''/'' \<in> set t" by (simp add: count_list_0_iff)
  moreover from assms have "3 \<le> length (split_on CHR ''/'' t)"
    by (simp add: length_split_on)
  ultimately show ?thesis by (simp add: unpack2_long)
qed

lemma convert_loop_returns:
  assumes "\<forall>n\<in>set ns. \<exists>r. convert_item E n = Inr r"
  shows "\<exists>ss. snd (convert_loop E argname ns) = Inr ss"
  using convert_loop_skips [OF assms, of argname] by simp

lemma convert_names_documented:
  assumes "documented_names x"
  shows "\<exists>r. snd (convert_names E x argname) = Inr r"
proof (cases x)
  case (Single v)
  with assms show ?thesis
  proof (cases v)
    case (Scalar w)
    with Single assms show ?thesis
    proof (cases w)
      case (PStr s)
      have "\<forall>n\<in>set [Scalar (PStr s)]. \<exists>r. convert_item E n = Inr r"
        using convert_item_Scalar [of E "PStr s"] by simp
      from convert_loop_returns [OF this, of argname] show ?thesis
        using Single Scalar PStr by (auto simp: Let_def)
    qed simp_all
  qed simp
next
  case (Collection ns)
  have "\<forall>n\<in>set ns. \<exists>v. n = Scalar v"
  proof
    fix n
    assume "n \<in> set ns"
    with assms Collection have "case n of Scalar (PStr s) \<Rightarrow> True | _ \<Rightarrow> False"
      by (simp add: list_all_iff)
    then show "\<exists>v. n = Scalar v" by (cases n) simp_all
  qed
  then have "\<forall>n\<in>set ns. \<exists>r. convert_item E n = Inr r"
    using convert_item_Scalar [of E] by auto
  from convert_loop_returns [OF this, of argname] show ?thesis
    using Collection by (auto simp: Let_def)
qed

section \<open>The body: alternative or single part\<close>

text \<open>
  Claim C1. The body that \<open>send\<close> composes from its \<open>html\<close> and \<open>plaintext\<close> arguments is a
  \<open>multipart/alternative\<close> container with exactly the plaintext part first and the html
  part second when both arguments are given, and the single part without a wrapper when
  one of them is given (and \<open>None\<close> when neither is). Whenever \<open>send\<close> reaches the transport,
  the tree it hands over is built from this body.
\<close>

theorem body_alternative_or_single:
  "compose_body (text_part E ''html'' (html a)) (text_part E ''text'' (plaintext a)) =
     (if html a \<noteq> PNone \<and> plaintext a \<noteq> PNone then
        Some (MIMEMultipart ''alternative''
                [MIMEText ''text'' (str_of E (plaintext a)), MIMEText ''html'' (str_of E (html a))])
      else if html a \<noteq> PNone then Some (MIMEText ''html'' (str_of E (html a)))
      else if plaintext a \<noteq> PNone then Some (MIMEText ''text'' (str_of E (plaintext a)))
      else None) \<and>
   (\<forall>ho. send E m a = Inr ho \<longrightarrow>
      (\<exists>ips aps content.
         compose_content
           (compose_body (text_part E ''html'' (html a)) (text_part E ''text'' (plaintext a)))
           ips = Inr content \<and>
         compose_message content aps = Some (msg_tree (sent ho))))"
  using compose_body_text [of E "html a" "plaintext a"] send_Inr_tree [of E m a] by blast

theorem body_alternative_or_single_witness:
  "send demo_env demo_mailer both_args =
     Inr \<lparr>sender = ''me@example.com'', recipients = [''a@example.com''],
          sent = \<lparr>msg_tree = MIMEMultipart ''alternative''
                               [MIMEText ''text'' ''hi'', MIMEText ''html'' ''<b>hi</b>''],
                  msg_headers = [(''To'', PStr ''a@example.com''),
                                 (''From'', PStr ''me@example.com''),
                                 (''Subject'', PStr ''hi'')]\<rparr>\<rparr> \<and>
   compose_body (text_part demo_env ''html'' (html both_args))
     (text_part demo_env ''text'' (plaintext both_args)) =
     Some (MIMEMultipart ''alternative''
             [MIMEText ''text'' ''hi'', MIMEText ''html'' ''<b>hi</b>''])"
proof -
  have s: "send demo_env demo_mailer both_args =
     Inr \<lparr>sender = ''me@example.com'', recipients = [''a@example.com''],
          sent = \<lparr>msg_tree = MIMEMultipart ''alternative''
                               [MIMEText ''text'' ''hi'', MIMEText ''html'' ''<b>hi</b>''],
                  msg_headers = [(''To'', PStr ''a@example.com''),
                                 (''From'', PStr ''me@example.com''),
                                 (''Subject'', PStr ''hi'')]\<rparr>\<rparr>"
    by code_simp
  have a: "html both_args = PStr ''<b>hi</b>''" "plaintext both_args = PStr ''hi''"
    by (simp_all add: both_args_def demo_args_def)
  show ?thesis
    using s body_alternative_or_single [of demo_env both_args demo_mailer]
    by (simp add: a str_of_def)
qed

section \<open>Inline elements without a body\<close>




section \<open>No recipients\<close>

text \<open>
  Claim C3, as the source has it. When the converted \<open>to\<close>, \<open>cc\<close> and \<open>bcc\<close> are all \<open>None\<close>
  or empty, \<open>send\<close> never reaches the transport. The check for an empty message comes
  before the check of the recipients: with nothing to send the exception is the one for an
  empty message, and with a message (and a usable \<open>header\<close> argument) it is the one for
  missing recipients.
\<close>

theorem no_recipients:
  assumes "snd (convert_names E (to a) ''to'') = Inr t"
      and "snd (convert_names E (cc a) ''cc'') = Inr c"
      and "snd (convert_names E (bcc a) ''bcc'') = Inr b"
      and "t = None \<or> t = Some []" and "c = None \<or> c = Some []" and "b = None \<or> b = Some []"
  shows "(\<forall>ho. send E m a \<noteq> Inr ho) \<and>
         (\<forall>f r aps ips content.
            resolve_from E m (from_addr a) = Inr f \<and>
            resolve_reply_to E (reply_to a) = Inr r \<and>
            attachment_parts E (attachments a) = Inr aps \<and>
            inline_parts E (inlines a) = Inr ips \<and>
            compose_content
              (compose_body (text_part E ''html'' (html a)) (text_part E ''text'' (plaintext a)))
              ips = Inr content \<longrightarrow>
            (compose_message content aps = None \<longrightarrow>
               send E m a = Inl (MailerException EmptyMessage)) \<and>
            (\<forall>tree kvs. compose_message content aps = Some tree \<and>
               header_items (header a) = Inr kvs \<longrightarrow>
               send E m a = Inl (MailerException NoRecipients)))"
proof (intro conjI allI impI)
  fix ho
  show "send E m a \<noteq> Inr ho"
  proof
    assume "send E m a = Inr ho"
    then obtain f r tree where
      "assemble m tree t c b r f (coerce_subject E (subject a)) (header a) = Inr ho"
      unfolding send_eq_Inr using assms(1-3) by auto
    then show False
      using assms(4-6) by (simp add: assemble_no_recipients ebind_eq_Inr)
  qed
next
  fix f r aps ips content
  assume st: "resolve_from E m (from_addr a) = Inr f \<and>
            resolve_reply_to E (reply_to a) = Inr r \<and>
            attachment_parts E (attachments a) = Inr aps \<and>
            inline_parts E (inlines a) = Inr ips \<and>
            compose_content
              (compose_body (text_part E ''html'' (html a)) (text_part E ''text'' (plaintext a)))
              ips = Inr content"
  {
    assume "compose_message content aps = None"
    with st assms(1-3) show "send E m a = Inl (MailerException EmptyMessage)"
      by (simp add: send_def)
  }
  {
    fix tree kvs
    assume "compose_message content aps = Some tree \<and> header_items (header a) = Inr kvs"
    with st assms show "send E m a = Inl (MailerException NoRecipients)"
      by (simp add: send_def assemble_no_recipients)
  }
qed

text \<open>
  The claim as stated fails for an empty body: no recipients and nothing to send ends with
  the exception for the empty message.
\<close>

theorem no_recipients_counterexample:
  "snd (convert_names demo_env (to empty_args) ''to'') = Inr (Some []) \<and>
   snd (convert_names demo_env (cc empty_args) ''cc'') = Inr None \<and>
   snd (convert_names demo_env (bcc empty_args) ''bcc'') = Inr None \<and>
   send demo_env demo_mailer empty_args = Inl (MailerException EmptyMessage) \<and>
   send demo_env demo_mailer empty_args \<noteq> Inl (MailerException NoRecipients)"
  by code_simp

theorem no_recipients_witness:
  "snd (convert_names demo_env (to no_rcpt_args) ''to'') = Inr (Some []) \<and>
   snd (convert_names demo_env (cc no_rcpt_args) ''cc'') = Inr None \<and>
   snd (convert_names demo_env (bcc no_rcpt_args) ''bcc'') = Inr None \<and>
   send demo_env demo_mailer no_rcpt_args = Inl (MailerException NoRecipients)"
proof -
  have c: "snd (convert_names demo_env (to no_rcpt_args) ''to'') = Inr (Some [])"
    "snd (convert_names demo_env (cc no_rcpt_args) ''cc'') = Inr None"
    "snd (convert_names demo_env (bcc no_rcpt_args) ''bcc'') = Inr None"
    by code_simp+
  have st: "resolve_from demo_env demo_mailer (from_addr no_rcpt_args) = Inr ''me@example.com'' \<and>
            resolve_reply_to demo_env (reply_to no_rcpt_args) = Inr None \<and>
            attachment_parts demo_env (attachments no_rcpt_args) = Inr [] \<and>
            inline_parts demo_env (inlines no_rcpt_args) = Inr [] \<and>
            compose_content
              (compose_body (text_part demo_env ''html'' (html no_rcpt_args))
                 (text_part demo_env ''text'' (plaintext no_rcpt_args)))
              [] = Inr (Some (MIMEText ''text'' ''hi''))"
    by code_simp
  have t: "compose_message (Some (MIMEText ''text'' ''hi'')) [] = Some (MIMEText ''text'' ''hi'') \<and>
           header_items (header no_rcpt_args) = Inr []"
    by code_simp
  have "send demo_env demo_mailer no_rcpt_args = Inl (MailerException NoRecipients)"
    using no_recipients [OF c, of demo_mailer] st t by blast
  with c show ?thesis by simp
qed

section \<open>Caller-supplied headers\<close>




section \<open>The type of a downloaded attachment\<close>

text \<open>
  Claim C5, as the source has it. For an attachment with a \<open>url\<close> whose download succeeds,
  the type that is split is the \<open>type\<close> entry when the item has one and the content type of
  the response otherwise; a type that is \<open>None\<close> or has no \<open>/\<close> gives
  \<open>application/octet-stream\<close>. The name takes no part: the result is the same whatever
  \<open>mimetypes.guess_type\<close> would answer.
\<close>

theorem url_type_precedence:
  assumes "urlopen E u = Inr resp" and "attachment_url E i d u = Inr p"
  shows "split_type (case map_of d ''type'' of
                       Some t \<Rightarrow> t
                     | None \<Rightarrow> PStr (get_content_type resp)) = Inr (maintype p, subtype p) \<and>
         (map_of d ''type'' = None \<and> CHR ''/'' \<notin> set (get_content_type resp) \<longrightarrow>
            maintype p = ''application'' \<and> subtype p = ''octet-stream'') \<and>
         attachment_url (E\<lparr>guess_type := g\<rparr>) i d u = Inr p"
proof -
  have ty: "dict_get d ''type'' (PStr (get_content_type resp)) =
              (case map_of d ''type'' of Some t \<Rightarrow> t | None \<Rightarrow> PStr (get_content_type resp))"
    by (simp add: dict_get_def)
  from assms obtain mt st where
    sp: "split_type (dict_get d ''type'' (PStr (get_content_type resp))) = Inr (mt, st)"
    by (cases "split_type (dict_get d ''type'' (PStr (get_content_type resp)))")
       (auto simp: attachment_url_def)
  with assms have "maintype p = mt \<and> subtype p = st"
    by (auto simp: attachment_url_def Let_def ebind_eq_Inr MIMEAnyType_def add_header_def
             split: scalar.splits if_splits)
  with sp have a: "split_type (case map_of d ''type'' of
                       Some t \<Rightarrow> t
                     | None \<Rightarrow> PStr (get_content_type resp)) = Inr (maintype p, subtype p)"
    by (simp add: ty)
  have b: "map_of d ''type'' = None \<and> CHR ''/'' \<notin> set (get_content_type resp) \<longrightarrow>
            maintype p = ''application'' \<and> subtype p = ''octet-stream''"
    using a by (auto simp: default_type_def)
  have sel: "urlopen (E\<lparr>guess_type := g\<rparr>) = urlopen E"
    "url_basename (E\<lparr>guess_type := g\<rparr>) = url_basename E"
    "guess_extension (E\<lparr>guess_type := g\<rparr>) = guess_extension E"
    "py_str (E\<lparr>guess_type := g\<rparr>) = py_str E"
    by simp_all
  have "attachment_url (E\<lparr>guess_type := g\<rparr>) i d u = attachment_url E i d u"
    unfolding attachment_url_def disposition_def str_of_def sel by (rule refl)
  with a b assms(2) show ?thesis by simp
qed

text \<open>
  The claim as stated fails for a download named \<open>a.png\<close> that the server declares as
  \<open>text/plain\<close>: the part is \<open>text/plain\<close>, although the name would be guessed as \<open>image/png\<close>.
\<close>

theorem url_type_precedence_counterexample:
  "guess_type demo_env (PStr ''a.png'') = Inr (Some ''image/png'') \<and>
   resolve_attachment demo_env 0 url_item =
     Inr \<lparr>maintype = ''text'', subtype = ''plain'', part_name = PStr ''a.png'', payload = ''x'',
          part_headers = [(''Content-Disposition'',
                           ''attachment; filename='' @ [CHR 0x22] @ ''a.png'' @ [CHR 0x22])]\<rparr>"
  by code_simp

theorem url_type_precedence_witness:
  "urlopen demo_env (PStr ''https://example.com/download'') =
     Inr \<lparr>get_content_type = ''text/plain'', get_filename = None, read_body = ''x''\<rparr> \<and>
   attachment_url demo_env 0 [(''name'', PStr ''a.png'')] (PStr ''https://example.com/download'') =
     Inr \<lparr>maintype = ''text'', subtype = ''plain'', part_name = PStr ''a.png'', payload = ''x'',
          part_headers = [(''Content-Disposition'',
                           ''attachment; filename='' @ [CHR 0x22] @ ''a.png'' @ [CHR 0x22])]\<rparr> \<and>
   split_type (PStr ''text/plain'') = Inr (''text'', ''plain'')"
proof -
  have u: "urlopen demo_env (PStr ''https://example.com/download'') =
     Inr \<lparr>get_content_type = ''text/plain'', get_filename = None, read_body = ''x''\<rparr>"
    by (simp add: demo_env_def)
  have r: "attachment_url demo_env 0 [(''name'', PStr ''a.png'')]
             (PStr ''https://example.com/download'') =
     Inr \<lparr>maintype = ''text'', subtype = ''plain'', part_name = PStr ''a.png'', payload = ''x'',
          part_headers = [(''Content-Disposition'',
                           ''attachment; filename='' @ [CHR 0x22] @ ''a.png'' @ [CHR 0x22])]\<rparr>"
    by code_simp
  from url_type_precedence [OF u r] show ?thesis
    using u r by simp
qed

section \<open>The payload of a \<open>data\<close> item\<close>




section \<open>Invalid recipients are skipped\<close>



section \<open>The headers of an inline part\<close>

text \<open>
  Claim C8. An inline element whose \<open>cid\<close> is a string containing \<open>@\<close> gives, when its
  content resolves, a part whose added headers are \<open>Content-ID\<close> with the \<open>cid\<close> exactly as
  supplied between angle brackets, and \<open>Content-Disposition: inline\<close>. An element without a
  \<open>cid\<close> entry, or whose \<open>cid\<close> is a string without \<open>@\<close>, fails with the exception for the
  content id.
\<close>

theorem inline_cid_headers:
  "(map_of d ''cid'' = Some (PStr c) \<and> CHR ''@'' \<in> set c \<and> resolve_inline E i (Dict d) = Inr p \<longrightarrow>
      part_headers p = [(''Content-ID'', ''<'' @ c @ ''>''), (''Content-Disposition'', ''inline'')]) \<and>
   (map_of d ''cid'' = None \<longrightarrow>
      resolve_inline E i (Dict d) = Inl (MailerException (MissingContentId i))) \<and>
   (map_of d ''cid'' = Some (PStr c) \<and> CHR ''@'' \<notin> set c \<longrightarrow>
      resolve_inline E i (Dict d) = Inl (MailerException InvalidContentId))"
proof (intro conjI impI)
  assume h: "map_of d ''cid'' = Some (PStr c) \<and> CHR ''@'' \<in> set c \<and>
             resolve_inline E i (Dict d) = Inr p"
  then obtain q where q: "inline_content E i d c = Inr q"
    and p: "p = add_header (add_header q ''Content-ID'' (''<'' @ c @ ''>''))
                  ''Content-Disposition'' ''inline''"
    by (auto simp: resolve_inline_def ebind_eq_Inr)
  from q have "part_headers q = []" by (rule inline_content_headers)
  with p show "part_headers p =
      [(''Content-ID'', ''<'' @ c @ ''>''), (''Content-Disposition'', ''inline'')]"
    by (simp add: add_header_def)
next
  assume "map_of d ''cid'' = None"
  then show "resolve_inline E i (Dict d) = Inl (MailerException (MissingContentId i))"
    by (simp add: resolve_inline_def)
next
  assume "map_of d ''cid'' = Some (PStr c) \<and> CHR ''@'' \<notin> set c"
  then show "resolve_inline E i (Dict d) = Inl (MailerException InvalidContentId)"
    by (simp add: resolve_inline_def)
qed

theorem inline_cid_headers_witness:
  "resolve_inline demo_env 0 logo_inline =
     Inr \<lparr>maintype = ''text'', subtype = ''plain'', part_name = PStr ''logo.svg'', payload = ''x'',
          part_headers = [(''Content-ID'', ''<logo@cloudflare.com>''),
                          (''Content-Disposition'', ''inline'')]\<rparr> \<and>
   resolve_inline demo_env 3 (Dict [(''data'', PBytes ''x'')]) =
     Inl (MailerException (MissingContentId 3)) \<and>
   resolve_inline demo_env 0 (Dict [(''cid'', PStr ''logo''), (''data'', PBytes ''x'')]) =
     Inl (MailerException InvalidContentId)"
proof -
  let ?d = "[(''url'', PStr ''https://cdnjs.cloudflare.com/logo.svg''),
             (''cid'', PStr ''logo@cloudflare.com'')]"
  let ?p = "\<lparr>maintype = ''text'', subtype = ''plain'', part_name = PStr ''logo.svg'',
             payload = ''x'',
             part_headers = [(''Content-ID'', ''<logo@cloudflare.com>''),
                             (''Content-Disposition'', ''inline'')]\<rparr>"
  have r: "resolve_inline demo_env 0 (Dict ?d) = Inr ?p"
    by code_simp
  have h1: "map_of ?d ''cid'' = Some (PStr ''logo@cloudflare.com'') \<and>
            CHR ''@'' \<in> set ''logo@cloudflare.com''"
    by simp
  have h2: "map_of [(''data'', PBytes ''x'')] ''cid'' = None"
    by simp
  have h3: "map_of [(''cid'', PStr ''logo''), (''data'', PBytes ''x'')] ''cid'' = Some (PStr ''logo'') \<and>
            CHR ''@'' \<notin> set ''logo''"
    by simp
  have "part_headers ?p = [(''Content-ID'', ''<'' @ ''logo@cloudflare.com'' @ ''>''),
                           (''Content-Disposition'', ''inline'')]"
    using inline_cid_headers [of ?d "''logo@cloudflare.com''" demo_env 0 ?p] h1 r by blast
  moreover have "resolve_inline demo_env 3 (Dict [(''data'', PBytes ''x'')]) =
     Inl (MailerException (MissingContentId 3))"
    using inline_cid_headers [of "[(''data'', PBytes ''x'')]" "''logo''" demo_env 3] h2 by blast
  moreover have "resolve_inline demo_env 0 (Dict [(''cid'', PStr ''logo''), (''data'', PBytes ''x'')]) =
     Inl (MailerException InvalidContentId)"
    using inline_cid_headers [of "[(''cid'', PStr ''logo''), (''data'', PBytes ''x'')]" "''logo''"
        demo_env 0] h3 by blast
  ultimately show ?thesis using r by (simp add: logo_inline_def)
qed

section \<open>The sender without a login\<close>

text \<open>
  Claim C9. A \<open>Mailer\<close> on which \<open>login\<close> was never called has \<open>self._user = None\<close>. With
  \<open>from_addr = None\<close> the derivation of the sender then raises \<open>TypeError\<close> in the test
  \<open>'@' in self._user\<close>: \<open>send\<close> never reaches the transport, and it ends with that
  \<open>TypeError\<close>, not with a \<open>MailerException\<close>, whenever the conversion of \<open>to\<close>, \<open>cc\<close> and \<open>bcc\<close>
  that comes before went through, as it always does for recipients of the documented
  types. With a user that is a string the derivation returns.
\<close>

theorem from_without_login:
  "(user m = PNone \<and> from_addr a = Scalar PNone \<longrightarrow>
      resolve_from E m (from_addr a) = Inl TypeError \<and>
      (\<forall>ho. send E m a \<noteq> Inr ho) \<and>
      (\<forall>t c b.
         snd (convert_names E (to a) ''to'') = Inr t \<and>
         snd (convert_names E (cc a) ''cc'') = Inr c \<and>
         snd (convert_names E (bcc a) ''bcc'') = Inr b \<longrightarrow>
         send E m a = Inl TypeError) \<and>
      (documented_names (to a) \<and> documented_names (cc a) \<and> documented_names (bcc a) \<longrightarrow>
         send E m a = Inl TypeError)) \<and>
   user (Mailer_init h p k) = PNone \<and>
   (user m = PStr u \<longrightarrow>
      resolve_from E m (Scalar PNone) =
        Inr (if CHR ''@'' \<in> set u then u else u @ ''@'' @ host m))"
proof (intro conjI impI allI)
  assume h: "user m = PNone \<and> from_addr a = Scalar PNone"
  then show r: "resolve_from E m (from_addr a) = Inl TypeError"
    by (simp add: resolve_from_def)
  {
    fix ho
    show "send E m a \<noteq> Inr ho"
      using r by (auto simp: send_eq_Inr)
  }
  {
    fix t c b
    assume "snd (convert_names E (to a) ''to'') = Inr t \<and>
         snd (convert_names E (cc a) ''cc'') = Inr c \<and>
         snd (convert_names E (bcc a) ''bcc'') = Inr b"
    then show "send E m a = Inl TypeError"
      using r by (simp add: send_def)
  }
  {
    assume d: "documented_names (to a) \<and> documented_names (cc a) \<and> documented_names (bcc a)"
    obtain t where "snd (convert_names E (to a) ''to'') = Inr t"
      using d convert_names_documented [of "to a" E "''to''"] by blast
    moreover obtain c where "snd (convert_names E (cc a) ''cc'') = Inr c"
      using d convert_names_documented [of "cc a" E "''cc''"] by blast
    moreover obtain b where "snd (convert_names E (bcc a) ''bcc'') = Inr b"
      using d convert_names_documented [of "bcc a" E "''bcc''"] by blast
    ultimately show "send E m a = Inl TypeError"
      using r by (simp add: send_def)
  }
next
  show "user (Mailer_init h p k) = PNone"
    by (simp add: Mailer_init_def)
next
  assume "user m = PStr u"
  then show "resolve_from E m (Scalar PNone) =
        Inr (if CHR ''@'' \<in> set u then u else u @ ''@'' @ host m)"
    by (simp add: resolve_from_def)
qed

theorem from_without_login_witness:
  "user (Mailer_init ''mail.example.com'' 587 None) = PNone \<and>
   from_addr anonymous_args = Scalar PNone \<and>
   send demo_env (Mailer_init ''mail.example.com'' 587 None) anonymous_args = Inl TypeError \<and>
   resolve_from demo_env (login (Mailer_init ''mail.example.com'' 587 None) (PStr ''test''))
     (Scalar PNone) = Inr ''test@mail.example.com''"
proof -
  let ?m = "Mailer_init ''mail.example.com'' 587 None"
  have h: "user ?m = PNone \<and> from_addr anonymous_args = Scalar PNone"
    by (simp add: Mailer_init_def anonymous_args_def demo_args_def)
  have c: "snd (convert_names demo_env (to anonymous_args) ''to'') = Inr (Some [''a@example.com'']) \<and>
         snd (convert_names demo_env (cc anonymous_args) ''cc'') = Inr None \<and>
         snd (convert_names demo_env (bcc anonymous_args) ''bcc'') = Inr None"
    by code_simp
  have u: "user (login ?m (PStr ''test'')) = PStr ''test''"
    "host (login ?m (PStr ''test'')) = ''mail.example.com''"
    by (simp_all add: login_def Mailer_init_def)
  have "send demo_env ?m anonymous_args = Inl TypeError"
    using from_without_login [where m = ?m and a = anonymous_args and E = demo_env] h c
    by blast
  moreover have "resolve_from demo_env (login ?m (PStr ''test'')) (Scalar PNone) =
      Inr (if CHR ''@'' \<in> set ''test'' then ''test'' else ''test'' @ ''@'' @ ''mail.example.com'')"
    using from_without_login [where m = "login ?m (PStr ''test'')" and u = "''test''"
        and E = demo_env] u
    by simp
  ultimately show ?thesis using h by simp
qed

section \<open>A type with more than one slash\<close>

text \<open>
  Claim C10. When the resolved type of an attachment is a string with two or more \<open>/\<close>,
  the unpacking of \<open>split('/')\<close> into two names raises \<open>ValueError\<close>, in the \<open>data\<close> variant
  and, after a successful download, in the \<open>url\<close> variant: the item ends with that
  \<open>ValueError\<close>, not with a \<open>MailerException\<close>. The inline \<open>file\<close> variant splits with
  \<open>split('/', 1)\<close> and builds the part from the same type: the main type is what precedes
  the first \<open>/\<close>, the subtype all that follows it.
\<close>

theorem type_with_two_slashes:
  assumes "2 \<le> count_list t CHR ''/''"
  shows "split_type (PStr t) = Inl ValueError \<and>
         (map_of da ''data'' = Some dat \<and>
          data_type E da (dict_get da ''name'' (PStr (unnamed i ''.dat''))) = Inr (PStr t) \<longrightarrow>
            resolve_attachment E i (Dict da) = Inl ValueError) \<and>
         (map_of du ''data'' = None \<and> map_of du ''file'' = None \<and> map_of du ''url'' = Some u \<and>
          urlopen E u = Inr resp \<and>
          dict_get du ''type'' (PStr (get_content_type resp)) = PStr t \<longrightarrow>
            resolve_attachment E i (Dict du) = Inl ValueError) \<and>
         split_type1 (PStr t) =
           Inr (takeWhile (\<lambda>x. x \<noteq> CHR ''/'') t, tl (dropWhile (\<lambda>x. x \<noteq> CHR ''/'') t)) \<and>
         (map_of di ''cid'' = Some (PStr c) \<and> CHR ''@'' \<in> set c \<and>
          map_of di ''data'' = None \<and> map_of di ''file'' = Some f \<and>
          map_of di ''type'' = Some (PStr t) \<and>
          isfile E f = Inr True \<and> guess_type E f = Inr g \<and> read_file E f = Inr bs \<longrightarrow>
            resolve_inline E i (Dict di) =
              Inr \<lparr>maintype = takeWhile (\<lambda>x. x \<noteq> CHR ''/'') t,
                   subtype = tl (dropWhile (\<lambda>x. x \<noteq> CHR ''/'') t),
                   part_name = PStr (takeWhile (\<lambda>x. x \<noteq> CHR ''@'') c),
                   payload = bs,
                   part_headers = [(''Content-ID'', ''<'' @ c @ ''>''),
                                   (''Content-Disposition'', ''inline'')]\<rparr>)"
proof -
  have v: "split_type (PStr t) = Inl ValueError"
    using assms by (rule split_type_two_slashes)
  from assms have "count_list t CHR ''/'' \<noteq> 0" by simp
  then have sl: "CHR ''/'' \<in> set t" by (simp add: count_list_0_iff)
  then have ne: "t \<noteq> []" by auto
  have s1: "split_type1 (PStr t) =
           Inr (takeWhile (\<lambda>x. x \<noteq> CHR ''/'') t, tl (dropWhile (\<lambda>x. x \<noteq> CHR ''/'') t))"
    using sl by (simp add: split_once_def)
  have a: "map_of da ''data'' = Some dat \<and>
          data_type E da (dict_get da ''name'' (PStr (unnamed i ''.dat''))) = Inr (PStr t) \<longrightarrow>
            resolve_attachment E i (Dict da) = Inl ValueError"
    using v by (simp add: resolve_attachment_def attachment_data_def Let_def)
  have b: "map_of du ''data'' = None \<and> map_of du ''file'' = None \<and> map_of du ''url'' = Some u \<and>
          urlopen E u = Inr resp \<and>
          dict_get du ''type'' (PStr (get_content_type resp)) = PStr t \<longrightarrow>
            resolve_attachment E i (Dict du) = Inl ValueError"
    using v by (simp add: resolve_attachment_def attachment_url_def)
  have c: "map_of di ''cid'' = Some (PStr c) \<and> CHR ''@'' \<in> set c \<and>
          map_of di ''data'' = None \<and> map_of di ''file'' = Some f \<and>
          map_of di ''type'' = Some (PStr t) \<and>
          isfile E f = Inr True \<and> guess_type E f = Inr g \<and> read_file E f = Inr bs \<longrightarrow>
            resolve_inline E i (Dict di) =
              Inr \<lparr>maintype = takeWhile (\<lambda>x. x \<noteq> CHR ''/'') t,
                   subtype = tl (dropWhile (\<lambda>x. x \<noteq> CHR ''/'') t),
                   part_name = PStr (takeWhile (\<lambda>x. x \<noteq> CHR ''@'') c),
                   payload = bs,
                   part_headers = [(''Content-ID'', ''<'' @ c @ ''>''),
                                   (''Content-Disposition'', ''inline'')]\<rparr>"
    using s1 ne
    by (simp add: resolve_inline_def inline_content_def Let_def dict_get_def MIMEAnyType_def
          add_header_def)
  from v a b s1 c show ?thesis by blast
qed

theorem type_with_two_slashes_witness:
  "2 \<le> count_list slash_type CHR ''/'' \<and>
   resolve_attachment demo_env 0 (Dict [(''data'', PBytes ''x''), (''type'', PStr slash_type)]) =
     Inl ValueError \<and>
   resolve_attachment demo_env 0
     (Dict [(''url'', PStr ''https://example.com/download''), (''type'', PStr slash_type)]) =
     Inl ValueError \<and>
   resolve_inline demo_env 0
     (Dict [(''cid'', PStr ''logo@cloudflare.com''), (''file'', PStr ''README.md''),
            (''type'', PStr slash_type)]) =
     Inr \<lparr>maintype = ''application'', subtype = ''vnd.example/extra'',
          part_name = PStr ''logo'', payload = ''# readme'',
          part_headers = [(''Content-ID'', ''<logo@cloudflare.com>''),
                          (''Content-Disposition'', ''inline'')]\<rparr>"
proof -
  let ?da = "[(''data'', PBytes ''x''), (''type'', PStr slash_type)]"
  let ?du = "[(''url'', PStr ''https://example.com/download''), (''type'', PStr slash_type)]"
  let ?di = "[(''cid'', PStr ''logo@cloudflare.com''), (''file'', PStr ''README.md''),
              (''type'', PStr slash_type)]"
  let ?resp = "\<lparr>get_content_type = ''text/plain'', get_filename = None, read_body = ''x''\<rparr>"
  have h: "2 \<le> count_list slash_type CHR ''/''"
    by (simp add: slash_type_def)
  have ha: "map_of ?da ''data'' = Some (PBytes ''x'') \<and>
            data_type demo_env ?da (dict_get ?da ''name'' (PStr (unnamed 0 ''.dat''))) =
              Inr (PStr slash_type)"
    by (simp add: data_type_def)
  have hu: "map_of ?du ''data'' = None \<and> map_of ?du ''file'' = None \<and>
            map_of ?du ''url'' = Some (PStr ''https://example.com/download'') \<and>
            urlopen demo_env (PStr ''https://example.com/download'') = Inr ?resp \<and>
            dict_get ?du ''type'' (PStr (get_content_type ?resp)) = PStr slash_type"
    by (simp add: demo_env_def dict_get_def)
  have hi: "map_of ?di ''cid'' = Some (PStr ''logo@cloudflare.com'') \<and>
            CHR ''@'' \<in> set ''logo@cloudflare.com'' \<and>
            map_of ?di ''data'' = None \<and> map_of ?di ''file'' = Some (PStr ''README.md'') \<and>
            map_of ?di ''type'' = Some (PStr slash_type) \<and>
            isfile demo_env (PStr ''README.md'') = Inr True \<and>
            guess_type demo_env (PStr ''README.md'') = Inr None \<and>
            read_file demo_env (PStr ''README.md'') = Inr ''# readme''"
    by (simp add: demo_env_def)
  note inst = type_with_two_slashes [OF h, where da = ?da and du = ?du and di = ?di
      and E = demo_env and i = 0 and dat = "PBytes ''x''"
      and u = "PStr ''https://example.com/download''" and resp = ?resp
      and c = "''logo@cloudflare.com''" and f = "PStr ''README.md''" and g = None
      and bs = "''# readme''"]
  have "resolve_attachment demo_env 0 (Dict ?da) = Inl ValueError"
    using inst ha by blast
  moreover have "resolve_attachment demo_env 0 (Dict ?du) = Inl ValueError"
    using inst hu by blast
  moreover have "resolve_inline demo_env 0 (Dict ?di) =
              Inr \<lparr>maintype = takeWhile (\<lambda>x. x \<noteq> CHR ''/'') slash_type,
                   subtype = tl (dropWhile (\<lambda>x. x \<noteq> CHR ''/'') slash_type),
                   part_name = PStr (takeWhile (\<lambda>x. x \<noteq> CHR ''@'') ''logo@cloudflare.com''),
                   payload = ''# readme'',
                   part_headers = [(''Content-ID'', ''<'' @ ''logo@cloudflare.com'' @ ''>''),
                                   (''Content-Disposition'', ''inline'')]\<rparr>"
    using inst hi by blast
  moreover have "takeWhile (\<lambda>x. x \<noteq> CHR ''/'') slash_type = ''application''"
    "tl (dropWhile (\<lambda>x. x \<noteq> CHR ''/'') slash_type) = ''vnd.example/extra''"
    "takeWhile (\<lambda>x. x \<noteq> CHR ''@'') ''logo@cloudflare.com'' = ''logo''"
    by (simp_all add: slash_type_def)
  ultimately show ?thesis using h by simp
qed

end
